theory Spec2Isabelle
  imports Main "HOL-Library.Log_Nat"
begin

section \<open>Promises, exceptions and event handlers\<close>

text \<open>
  The screens are React components whose event handlers are \<^verbatim>\<open>async\<close> functions: they
  update the component's state, \<^verbatim>\<open>await\<close> calls to the session provider and to the hosted
  stores, and wrap everything in \<^verbatim>\<open>try / catch / finally\<close>. A handler is modelled as a
  function from the state before to a completion and the state after. The completion is
  \<open>Inl e\<close> when the value \<open>e\<close> was thrown and not caught, \<open>Inr x\<close> when the handler
  ran to its end.
\<close>

datatype exn =
    InvalidCredentials
  | ExternalAuthFailed
  | AccountCreationFailed
  | UpdateFailed
  | PersistenceFailed
  | UploadFailed
  | OtherFailure string

type_synonym 'a outcome = "exn + 'a"

type_synonym ('a, 's) prog = "'s \<Rightarrow> 'a outcome \<times> 's"

definition returns :: "'a \<Rightarrow> ('a, 's) prog" where
  "returns x s = (Inr x, s)"

definition bind_prog :: "('a, 's) prog \<Rightarrow> ('a \<Rightarrow> ('b, 's) prog) \<Rightarrow> ('b, 's) prog" where
  "bind_prog m f s = (case m s of (Inl e, s') \<Rightarrow> (Inl e, s') | (Inr x, s') \<Rightarrow> f x s')"

text \<open>A block of statements: the first one that throws ends the block.\<close>

fun block :: "(unit, 's) prog list \<Rightarrow> (unit, 's) prog" where
  "block [] = returns ()"
| "block (m # ms) = bind_prog m (\<lambda>_. block ms)"

text \<open>
  \<^verbatim>\<open>try { body } catch (err) { handler }\<close> and the same with \<^verbatim>\<open>finally { fin }\<close>: the
  \<open>finally\<close> block runs after the body and after the handler, whatever their completion;
  the statement completes as they did unless the \<open>finally\<close> block itself throws.
\<close>

definition try_catch :: "(unit, 's) prog \<Rightarrow> (exn \<Rightarrow> (unit, 's) prog) \<Rightarrow> (unit, 's) prog" where
  "try_catch body handler s =
     (case body s of (Inl e, s') \<Rightarrow> handler e s' | (Inr x, s') \<Rightarrow> (Inr x, s'))"

definition try_catch_finally ::
  "(unit, 's) prog \<Rightarrow> (exn \<Rightarrow> (unit, 's) prog) \<Rightarrow> (unit, 's) prog \<Rightarrow> (unit, 's) prog" where
  "try_catch_finally body handler fin s =
     (case try_catch body handler s of
        (r, s') \<Rightarrow> (case fin s' of (Inl e, s'') \<Rightarrow> (Inl e, s'') | (Inr _, s'') \<Rightarrow> (r, s'')))"

section \<open>Data\<close>

text \<open>The file picked in the profile screen's file input: \<^verbatim>\<open>name\<close>, \<^verbatim>\<open>type\<close>, \<^verbatim>\<open>size\<close>.\<close>

record File =
  file_name :: string
  file_type :: string
  file_size :: nat

text \<open>A field of a stored document: the screens write strings and \<^verbatim>\<open>null\<close>.\<close>

datatype fvalue = Str string | Null

type_synonym doc = "string \<rightharpoonup> fvalue"

text \<open>The identity the session provider exposes as \<^verbatim>\<open>currentUser\<close>.\<close>

record User =
  uid :: string
  user_email :: "string option"
  displayName :: "string option"
  photoURL :: "string option"

text \<open>
  The requests a screen sends to the session provider (\<^verbatim>\<open>useAuth()\<close>), the document store
  and the file store. \<open>SetDoc\<close> is \<^verbatim>\<open>setDoc(ref, data, { merge: true })\<close>, the only way the
  code calls it.
\<close>

datatype call =
    SignIn string string
  | GoogleSignIn
  | SignUp string string
  | UpdateUserProfile string "string option"
  | ResetPassword string
  | GetDoc string
  | SetDoc string "(string \<times> fvalue) list"
  | UploadBytes string File
  | GetDownloadURL string

text \<open>
  The state every screen has: the \<^verbatim>\<open>error\<close> and \<^verbatim>\<open>isLoading\<close> hooks and the form's
  \<^verbatim>\<open>formState.errors\<close>. Two more fields record what the handlers did to the outside:
  \<open>navigated\<close> lists the routes passed to \<^verbatim>\<open>navigate\<close> and \<open>requests\<close> the backend
  calls issued, both in order.
\<close>

record screen =
  error :: string
  isLoading :: bool
  errors :: "string \<rightharpoonup> string"
  navigated :: "string list"
  requests :: "call list"

definition setError :: "string \<Rightarrow> (unit, 'a screen_scheme) prog" where
  "setError msg s = (Inr (), s\<lparr>error := msg\<rparr>)"

definition setIsLoading :: "bool \<Rightarrow> (unit, 'a screen_scheme) prog" where
  "setIsLoading b s = (Inr (), s\<lparr>isLoading := b\<rparr>)"

definition navigate :: "string \<Rightarrow> (unit, 'a screen_scheme) prog" where
  "navigate path s = (Inr (), s\<lparr>navigated := navigated s @ [path]\<rparr>)"

text \<open>
  \<^verbatim>\<open>await f(...)\<close>: the request is issued, and the promise settles as the backend decides;
  the settlement is an argument of the handler's model.
\<close>

definition await :: "call \<Rightarrow> 'a outcome \<Rightarrow> ('a, 'b screen_scheme) prog" where
  "await c settled s = (settled, s\<lparr>requests := requests s @ [c]\<rparr>)"

section \<open>Login\<close>

record LoginFormData =
  email :: string
  password :: string

definition Login_onSubmit :: "unit outcome \<Rightarrow> LoginFormData \<Rightarrow> (unit, 'a screen_scheme) prog" where
  "Login_onSubmit signIn_settled data =
     try_catch_finally
       (block
          [setError [],
           setIsLoading True,
           await (SignIn (LoginFormData.email data) (LoginFormData.password data)) signIn_settled,
           navigate ''/profile''])
       (\<lambda>err. setError ''Failed to sign in. Please check your credentials.'')
       (setIsLoading False)"

definition Login_handleGoogleSignIn :: "unit outcome \<Rightarrow> (unit, 'a screen_scheme) prog" where
  "Login_handleGoogleSignIn googleSignIn_settled =
     try_catch_finally
       (block
          [setError [],
           setIsLoading True,
           await GoogleSignIn googleSignIn_settled,
           navigate ''/profile''])
       (\<lambda>err. setError ''Failed to sign in with Google.'')
       (setIsLoading False)"

section \<open>SignUp\<close>

record SignUpFormData =
  username :: string
  email :: string
  password :: string
  confirmPassword :: string
  age :: string

text \<open>\<^verbatim>\<open>updateUserProfile(data.username)\<close> passes no photo: the second argument is absent.\<close>

definition SignUp_onSubmit ::
  "unit outcome \<Rightarrow> unit outcome \<Rightarrow> SignUpFormData \<Rightarrow> (unit, 'a screen_scheme) prog" where
  "SignUp_onSubmit signUp_settled updateUserProfile_settled data =
     try_catch_finally
       (block
          [setError [],
           setIsLoading True,
           await (SignUp (SignUpFormData.email data) (SignUpFormData.password data)) signUp_settled,
           await (UpdateUserProfile (SignUpFormData.username data) None) updateUserProfile_settled,
           navigate ''/profile''])
       (\<lambda>err. setError ''Failed to create an account.'')
       (setIsLoading False)"

section \<open>ForgotPassword\<close>

text \<open>The screens that report success have a \<^verbatim>\<open>message\<close> hook as well.\<close>

record message_screen = screen +
  message :: string

definition setMessage :: "string \<Rightarrow> (unit, 'a message_screen_scheme) prog" where
  "setMessage msg s = (Inr (), s\<lparr>message := msg\<rparr>)"

record ForgotPasswordFormData =
  email :: string

definition ForgotPassword_onSubmit ::
  "unit outcome \<Rightarrow> ForgotPasswordFormData \<Rightarrow> (unit, 'a message_screen_scheme) prog" where
  "ForgotPassword_onSubmit resetPassword_settled data =
     try_catch_finally
       (block
          [setMessage [],
           setError [],
           setIsLoading True,
           await (ResetPassword (ForgotPasswordFormData.email data)) resetPassword_settled,
           setMessage ''Check your inbox for password reset instructions.''])
       (\<lambda>err. setError ''Failed to reset password. Please check your email address.'')
       (setIsLoading False)"

section \<open>Profile\<close>

record ProfileFormData =
  username :: string
  dob :: string
  mobileNumber :: string
  address :: string

text \<open>
  The profile screen's state: the hooks \<^verbatim>\<open>profileImage\<close> and \<^verbatim>\<open>fetchingUserData\<close>, and
  \<open>form\<close>, the values the form holds (its \<^verbatim>\<open>defaultValues\<close>, replaced by \<^verbatim>\<open>reset\<close>).
  The last field is not the component's: \<open>users\<close> is the \<^verbatim>\<open>users\<close> collection of the
  document store, one document per identity id, which the screen reads and writes.
\<close>

record profile_screen = message_screen +
  profileImage :: "string option"
  fetchingUserData :: bool
  form :: ProfileFormData
  users :: "string \<rightharpoonup> doc"

definition setProfileImage :: "string option \<Rightarrow> (unit, 'a profile_screen_scheme) prog" where
  "setProfileImage img s = (Inr (), s\<lparr>profileImage := img\<rparr>)"

definition setFetchingUserData :: "bool \<Rightarrow> (unit, 'a profile_screen_scheme) prog" where
  "setFetchingUserData b s = (Inr (), s\<lparr>fetchingUserData := b\<rparr>)"

definition reset :: "ProfileFormData \<Rightarrow> (unit, 'a profile_screen_scheme) prog" where
  "reset vals s = (Inr (), s\<lparr>form := vals\<rparr>)"

text \<open>
  JavaScript's \<^verbatim>\<open>a || b\<close> on values that are a string, \<^verbatim>\<open>null\<close> or \<^verbatim>\<open>undefined\<close>
  (\<open>None\<close> stands for the last two): the empty string is falsy too.
\<close>

definition truthy :: "string option \<Rightarrow> bool" where
  "truthy v = (case v of None \<Rightarrow> False | Some str \<Rightarrow> str \<noteq> [])"

definition or_else :: "string option \<Rightarrow> string \<Rightarrow> string" where
  "or_else v d = (case v of None \<Rightarrow> d | Some str \<Rightarrow> if str = [] then d else str)"

text \<open>\<^verbatim>\<open>userData.key\<close> of a fetched document, read as \<^verbatim>\<open>string | undefined\<close>.\<close>

definition field :: "doc \<Rightarrow> string \<Rightarrow> string option" where
  "field d k = (case d k of Some (Str str) \<Rightarrow> Some str | _ \<Rightarrow> None)"

definition nullable :: "string option \<Rightarrow> fvalue" where
  "nullable v = (case v of None \<Rightarrow> Null | Some str \<Rightarrow> Str str)"

text \<open>
  \<^verbatim>\<open>getDoc\<close> answers with the snapshot of the stored document (\<open>None\<close>: it does not
  exist) unless the request fails. \<^verbatim>\<open>setDoc\<close> with \<^verbatim>\<open>{ merge: true }\<close> creates the document
  or overwrites in it exactly the fields of the data it is given; a rejected write leaves
  the store as it was.
\<close>

definition getDoc :: "string \<Rightarrow> exn option \<Rightarrow> (doc option, 'a profile_screen_scheme) prog" where
  "getDoc docId fault s =
     ((case fault of Some e \<Rightarrow> Inl e | None \<Rightarrow> Inr (users s docId)),
      s\<lparr>requests := requests s @ [GetDoc docId]\<rparr>)"

definition merge_doc :: "doc option \<Rightarrow> (string \<times> fvalue) list \<Rightarrow> doc" where
  "merge_doc stored data = (case stored of None \<Rightarrow> Map.empty | Some d \<Rightarrow> d) ++ map_of data"

definition setDoc ::
  "string \<Rightarrow> (string \<times> fvalue) list \<Rightarrow> unit outcome \<Rightarrow> (unit, 'a profile_screen_scheme) prog" where
  "setDoc docId data settled s =
     (settled,
      (case settled of
         Inl e \<Rightarrow> s
       | Inr _ \<Rightarrow> s\<lparr>users := (users s)(docId \<mapsto> merge_doc (users s docId) data)\<rparr>)
      \<lparr>requests := requests s @ [SetDoc docId data]\<rparr>)"

text \<open>The state the component starts with: the hooks' initial values.\<close>

definition Profile_init :: "User option \<Rightarrow> (string \<rightharpoonup> doc) \<Rightarrow> profile_screen" where
  "Profile_init currentUser store =
     \<lparr>error = [], isLoading = False, errors = Map.empty, navigated = [], requests = [],
      message = [], profileImage = None, fetchingUserData = True,
      form = \<lparr>username = or_else (case currentUser of None \<Rightarrow> None | Some u \<Rightarrow> displayName u) [],
               dob = [], mobileNumber = [], address = []\<rparr>,
      users = store\<rparr>"

text \<open>The effect that runs on mount. Its \<^verbatim>\<open>catch\<close> only logs to the console.\<close>

definition Profile_fetchUserData ::
  "User option \<Rightarrow> exn option \<Rightarrow> (unit, 'a profile_screen_scheme) prog" where
  "Profile_fetchUserData currentUser getDoc_fault =
     (case currentUser of
        None \<Rightarrow> returns ()
      | Some u \<Rightarrow>
          try_catch_finally
            (block
               [setFetchingUserData True,
                bind_prog (getDoc (uid u) getDoc_fault) (\<lambda>userDoc.
                  case userDoc of
                    Some userData \<Rightarrow>
                      block
                        [if truthy (field userData ''photoURL'')
                         then setProfileImage (field userData ''photoURL'')
                         else if truthy (photoURL u) then setProfileImage (photoURL u)
                         else returns (),
                         reset
                           \<lparr>username = or_else (field userData ''username'') (or_else (displayName u) []),
                            dob = or_else (field userData ''dob'') [],
                            mobileNumber = or_else (field userData ''mobileNumber'') [],
                            address = or_else (field userData ''address'') []\<rparr>]
                  | None \<Rightarrow>
                      block
                        [reset
                           \<lparr>username = or_else (displayName u) [],
                            dob = [], mobileNumber = [], address = []\<rparr>,
                         if truthy (photoURL u) then setProfileImage (photoURL u)
                         else returns ()])])
            (\<lambda>err. returns ())
            (setFetchingUserData False))"

text \<open>What the component renders of this state: the form, or the spinner while fetching.\<close>

definition Profile_form_shown :: "'a profile_screen_scheme \<Rightarrow> bool" where
  "Profile_form_shown s = (\<not> fetchingUserData s)"

definition startsWith :: "string \<Rightarrow> string \<Rightarrow> bool" where
  "startsWith str pre = (take (length pre) str = pre)"

definition digit_char :: "nat \<Rightarrow> char" where
  "digit_char d = ''0123456789'' ! d"

fun toString_nat :: "nat \<Rightarrow> string" where
  "toString_nat n =
     (if n < 10 then [digit_char n] else toString_nat (n div 10) @ [digit_char (n mod 10)])"

declare toString_nat.simps [simp del]

text \<open>
  The storage key \<^verbatim>\<open>`profileImages/${currentUser?.uid}/${Date.now()}-${file.name}`\<close>;
  \<open>now\<close> is what \<^verbatim>\<open>Date.now()\<close> returns.
\<close>

definition fileRef :: "User option \<Rightarrow> nat \<Rightarrow> File \<Rightarrow> string" where
  "fileRef currentUser now file =
     ''profileImages/'' @ (case currentUser of None \<Rightarrow> ''undefined'' | Some u \<Rightarrow> uid u) @
     ''/'' @ toString_nat now @ ''-'' @ file_name file"

definition Profile_handleImageChange ::
  "User option \<Rightarrow> nat \<Rightarrow> unit outcome \<Rightarrow> string outcome \<Rightarrow> File option \<Rightarrow>
   (unit, 'a profile_screen_scheme) prog" where
  "Profile_handleImageChange currentUser now uploadBytes_settled getDownloadURL_settled files0 =
     (case files0 of
        None \<Rightarrow> returns ()
      | Some file \<Rightarrow>
          if \<not> startsWith (file_type file) ''image/''
          then setError ''Please select an image file (PNG, JPG, etc.)''
          else if file_size file > 5 * 1024 * 1024
          then setError ''Image size should be less than 5MB''
          else
            try_catch
              (block
                 [setIsLoading True,
                  bind_prog (await (UploadBytes (fileRef currentUser now file) file) uploadBytes_settled)
                    (\<lambda>_. bind_prog
                       (await (GetDownloadURL (fileRef currentUser now file)) getDownloadURL_settled)
                       (\<lambda>downloadURL. block [setProfileImage (Some downloadURL), setIsLoading False]))])
              (\<lambda>err. block [setError ''Failed to upload image.'', setIsLoading False]))"

text \<open>
  Saving the profile. \<open>profile_fields\<close> is the object the handler passes to \<^verbatim>\<open>setDoc\<close>;
  \<open>now\<close> is \<^verbatim>\<open>new Date().toISOString()\<close>. The handler reads \<^verbatim>\<open>profileImage\<close> as it
  was when the handler started.
\<close>

definition profile_fields ::
  "User \<Rightarrow> string \<Rightarrow> string option \<Rightarrow> ProfileFormData \<Rightarrow> (string \<times> fvalue) list" where
  "profile_fields u now img data =
     [(''username'', Str (ProfileFormData.username data)),
      (''dob'', Str (dob data)),
      (''mobileNumber'', Str (mobileNumber data)),
      (''address'', Str (address data)),
      (''photoURL'', nullable img),
      (''email'', nullable (user_email u)),
      (''updatedAt'', Str now)]"

definition Profile_onSubmit ::
  "User option \<Rightarrow> string \<Rightarrow> unit outcome \<Rightarrow> unit outcome \<Rightarrow> ProfileFormData \<Rightarrow>
   (unit, 'a profile_screen_scheme) prog" where
  "Profile_onSubmit currentUser now updateUserProfile_settled setDoc_settled data s0 =
     try_catch_finally
       (block
          [setMessage [],
           setError [],
           setIsLoading True,
           await
             (UpdateUserProfile (ProfileFormData.username data)
                (if truthy (profileImage s0) then profileImage s0 else None))
             updateUserProfile_settled,
           (case currentUser of
              Some u \<Rightarrow>
                setDoc (uid u) (profile_fields u now (profileImage s0) data) setDoc_settled
            | None \<Rightarrow> returns ()),
           setMessage ''Profile updated successfully!''])
       (\<lambda>err. setError ''Failed to update profile.'')
       (setIsLoading False)
       s0"

section \<open>Numbers\<close>

text \<open>
  The age rule of the sign-up schema calls \<^verbatim>\<open>Number(val)\<close> on a string. \<open>Number\<close> below
  is that conversion (ECMAScript's StringToNumber): white space is trimmed, the empty string
  is \<open>0\<close>, the rest must be a decimal literal with an optional sign, \<^verbatim>\<open>Infinity\<close> with an
  optional sign, or an unsigned binary, octal or hexadecimal integer literal; anything else
  is \<open>NaN\<close>. The value of the literal is then rounded to the nearest IEEE double, ties to
  even. A double is kept as the rational number it denotes; \<open>+0\<close> and \<open>-0\<close>, which compare
  equal, are both \<open>Finite 0\<close>. Strings are read as sequences of code units below 256.
\<close>

datatype number = NaN | Finite rat | PosInfinity | NegInfinity

definition round_half_even :: "rat \<Rightarrow> int" where
  "round_half_even x =
     (let f = \<lfloor>x\<rfloor>; r = x - of_int f
      in if r < 1 / 2 then f else if 1 / 2 < r then f + 1 else if even f then f else f + 1)"

text \<open>For \<open>0 < a\<close>, the exponent \<open>e\<close> with \<open>2\<^sup>e \<le> a < 2\<^sup>e\<^sup>+\<^sup>1\<close>.\<close>

definition binade :: "rat \<Rightarrow> int" where
  "binade a =
     (let d = bitlen (fst (quotient_of a)) - bitlen (snd (quotient_of a))
      in if 2 powi d \<le> a then d else d - 1)"

text \<open>
  Rounding to binary64: 53 significant bits, the least exponent \<open>-1022\<close> (below it the
  spacing of the subnormal numbers), overflow to an infinity from \<open>2\<^sup>1\<^sup>0\<^sup>2\<^sup>4\<close> on.
\<close>

definition to_double :: "rat \<Rightarrow> number" where
  "to_double x =
     (if x = 0 then Finite 0
      else
        let a = \<bar>x\<bar>;
            e = max (binade a) (- 1022);
            q = 2 powi (e - 52);
            r = of_int (round_half_even (a / q)) * q
        in if 2 powi 1024 \<le> r then (if 0 < x then PosInfinity else NegInfinity)
           else Finite (sgn x * r))"

definition is_space :: "char \<Rightarrow> bool" where
  "is_space c = (c \<in> set [CHR 0x09, CHR 0x0A, CHR 0x0B, CHR 0x0C, CHR 0x0D, CHR 0x20, CHR 0xA0])"

definition trim :: "string \<Rightarrow> string" where
  "trim str = rev (dropWhile is_space (rev (dropWhile is_space str)))"

definition digit_value :: "char \<Rightarrow> int" where
  "digit_value c =
     (if c \<in> set ''0123456789'' then of_char c - 48
      else if c \<in> set ''abcdef'' then of_char c - 87
      else of_char c - 55)"

definition is_digit :: "int \<Rightarrow> char \<Rightarrow> bool" where
  "is_digit radix c = (c \<in> set ''0123456789abcdefABCDEF'' \<and> digit_value c < radix)"

definition digits_value :: "int \<Rightarrow> string \<Rightarrow> int" where
  "digits_value radix ds = foldl (\<lambda>acc c. acc * radix + digit_value c) 0 ds"

definition non_decimal :: "string \<Rightarrow> int option" where
  "non_decimal str =
     (let radix = (if take 2 str \<in> set [''0x'', ''0X''] then 16
                   else if take 2 str \<in> set [''0o'', ''0O''] then 8
                   else if take 2 str \<in> set [''0b'', ''0B''] then 2 else (0::int));
          ds = drop 2 str
      in if radix \<noteq> 0 \<and> ds \<noteq> [] \<and> list_all (is_digit radix) ds
         then Some (digits_value radix ds) else None)"

definition exponent_part :: "string \<Rightarrow> int option" where
  "exponent_part str =
     (if str = [] then Some 0
      else if hd str \<in> set ''eE'' then
        (let t = tl str;
             neg = (t \<noteq> [] \<and> hd t = CHR ''-'');
             ds = (if t \<noteq> [] \<and> hd t \<in> set ''+-'' then tl t else t)
         in if ds \<noteq> [] \<and> list_all (is_digit 10) ds
            then Some (if neg then - digits_value 10 ds else digits_value 10 ds)
            else None)
      else None)"

definition unsigned_decimal :: "string \<Rightarrow> rat option" where
  "unsigned_decimal str =
     (let ip = takeWhile (is_digit 10) str;
          r1 = dropWhile (is_digit 10) str;
          dot = (r1 \<noteq> [] \<and> hd r1 = CHR ''.'');
          fp = (if dot then takeWhile (is_digit 10) (tl r1) else []);
          r2 = (if dot then dropWhile (is_digit 10) (tl r1) else r1)
      in if ip = [] \<and> fp = [] then None
         else case exponent_part r2 of
                None \<Rightarrow> None
              | Some ex \<Rightarrow>
                  Some (of_int (digits_value 10 (ip @ fp)) * 10 powi (ex - int (length fp))))"

definition Number :: "string \<Rightarrow> number" where
  "Number str =
     (let t = trim str in
      if t = [] then Finite 0
      else case non_decimal t of
        Some n \<Rightarrow> to_double (of_int n)
      | None \<Rightarrow>
          (let neg = (hd t = CHR ''-'');
               u = (if hd t \<in> set ''+-'' then tl t else t)
           in if u = ''Infinity'' then (if neg then NegInfinity else PosInfinity)
              else case unsigned_decimal u of
                     None \<Rightarrow> NaN
                   | Some v \<Rightarrow> to_double (if neg then - v else v)))"

definition isNaN :: "number \<Rightarrow> bool" where
  "isNaN v = (v = NaN)"

text \<open>\<^verbatim>\<open>a >= b\<close> on numbers: false whenever an operand is \<open>NaN\<close>.\<close>

fun number_ge :: "number \<Rightarrow> number \<Rightarrow> bool" where
  "number_ge NaN _ = False"
| "number_ge _ NaN = False"
| "number_ge PosInfinity _ = True"
| "number_ge _ NegInfinity = True"
| "number_ge NegInfinity _ = False"
| "number_ge _ PosInfinity = False"
| "number_ge (Finite a) (Finite b) = (b \<le> a)"

text \<open>
  The spec's words for the age rule, "parses as a number that is at least \<open>n\<close>", to be
  compared with the rule as the schema writes it: the conversion gives a number, not
  \<open>NaN\<close>, and that number is \<open>n\<close> or more.
\<close>

definition parses_as_number_at_least :: "rat \<Rightarrow> string \<Rightarrow> bool" where
  "parses_as_number_at_least n str =
     (case Number str of
        NaN \<Rightarrow> False
      | Finite v \<Rightarrow> n \<le> v
      | PosInfinity \<Rightarrow> True
      | NegInfinity \<Rightarrow> False)"

section \<open>Form validation\<close>

text \<open>
  The schemas are built with zod and run by react-hook-form's \<^verbatim>\<open>zodResolver\<close>. A schema is
  modelled by the issues it raises on the form's values, each a path and a message, in the
  order zod raises them: field by field in the order of the object's shape, then the
  refinement of the whole object. Every field of a form is a string, so no field fails its
  type check; a length, format or refinement issue marks the value dirty without aborting,
  and the object's refinement runs on dirty values as well.
\<close>

type_synonym issue = "string \<times> string"

definition z_min :: "nat \<Rightarrow> string \<Rightarrow> string \<Rightarrow> string \<Rightarrow> issue list" where
  "z_min n msg path val = (if length val < n then [(path, msg)] else [])"

definition z_refine :: "('a \<Rightarrow> bool) \<Rightarrow> string \<Rightarrow> string \<Rightarrow> 'a \<Rightarrow> issue list" where
  "z_refine check msg path val = (if check val then [] else [(path, msg)])"

text \<open>
  \<^verbatim>\<open>z.string().email()\<close> tests the string against zod's pattern (the one of zod 3.23
  is modelled; the package itself is not part of the repository), case-insensitively:
  the string does not start with a dot and has no two dots in a row; before the \<^verbatim>\<open>@\<close>
  come letters, digits and \<^verbatim>\<open>_ ' + - .\<close>, the last of them not a quote or a dot; after it,
  one or more labels of letters, digits and hyphens, each starting with a letter or a
  digit and followed by a dot, and then two or more letters.
\<close>

definition is_letter :: "char \<Rightarrow> bool" where
  "is_letter c = (c \<in> set ''abcdefghijklmnopqrstuvwxyzABCDEFGHIJKLMNOPQRSTUVWXYZ'')"

definition is_alnum :: "char \<Rightarrow> bool" where
  "is_alnum c = (is_letter c \<or> c \<in> set ''0123456789'')"

fun split_on :: "char \<Rightarrow> string \<Rightarrow> string list" where
  "split_on c [] = [[]]"
| "split_on c (x # xs) =
     (if x = c then [] # split_on c xs
      else case split_on c xs of [] \<Rightarrow> [[x]] | l # ls \<Rightarrow> (x # l) # ls)"

fun has_two_dots :: "string \<Rightarrow> bool" where
  "has_two_dots (a # b # cs) = ((a = CHR ''.'' \<and> b = CHR ''.'') \<or> has_two_dots (b # cs))"
| "has_two_dots _ = False"

definition local_char :: "char \<Rightarrow> bool" where
  "local_char c = (is_alnum c \<or> c \<in> set [CHR ''_'', CHR 0x27, CHR ''+'', CHR ''-'', CHR ''.''])"

definition local_last_char :: "char \<Rightarrow> bool" where
  "local_last_char c = (is_alnum c \<or> c \<in> set [CHR ''_'', CHR ''+'', CHR ''-''])"

definition label_ok :: "string \<Rightarrow> bool" where
  "label_ok l = (l \<noteq> [] \<and> is_alnum (hd l) \<and> list_all (\<lambda>c. is_alnum c \<or> c = CHR ''-'') (tl l))"

definition domain_ok :: "string \<Rightarrow> bool" where
  "domain_ok d =
     (let labels = split_on (CHR ''.'') d
      in 2 \<le> length labels \<and> list_all label_ok (butlast labels) \<and>
         2 \<le> length (last labels) \<and> list_all is_letter (last labels))"

definition isEmail :: "string \<Rightarrow> bool" where
  "isEmail str =
     (let name = takeWhile (\<lambda>c. c \<noteq> CHR ''@'') str;
          rest = dropWhile (\<lambda>c. c \<noteq> CHR ''@'') str
      in rest \<noteq> [] \<and> name \<noteq> [] \<and> hd name \<noteq> CHR ''.'' \<and> \<not> has_two_dots str \<and>
         list_all local_char (butlast name) \<and> local_last_char (last name) \<and>
         domain_ok (tl rest))"

definition z_email :: "string \<Rightarrow> string \<Rightarrow> string \<Rightarrow> issue list" where
  "z_email msg path val = (if isEmail val then [] else [(path, msg)])"

definition loginSchema :: "LoginFormData \<Rightarrow> issue list" where
  "loginSchema data =
     z_email ''Please enter a valid email address'' ''email'' (LoginFormData.email data) @
     z_min 6 ''Password must be at least 6 characters'' ''password'' (LoginFormData.password data)"

definition signUpSchema :: "SignUpFormData \<Rightarrow> issue list" where
  "signUpSchema data =
     z_min 3 ''Username must be at least 3 characters'' ''username'' (SignUpFormData.username data) @
     z_email ''Please enter a valid email address'' ''email'' (SignUpFormData.email data) @
     z_min 6 ''Password must be at least 6 characters'' ''password'' (SignUpFormData.password data) @
     z_refine (\<lambda>val. \<not> isNaN (Number val) \<and> number_ge (Number val) (Finite 18))
       ''You must be at least 18 years old'' ''age'' (age data) @
     z_refine (\<lambda>data. SignUpFormData.password data = confirmPassword data)
       ''Passwords don't match'' ''confirmPassword'' data"

definition forgotPasswordSchema :: "ForgotPasswordFormData \<Rightarrow> issue list" where
  "forgotPasswordSchema data =
     z_email ''Please enter a valid email address'' ''email'' (ForgotPasswordFormData.email data)"

text \<open>
  \<^verbatim>\<open>handleSubmit(onSubmit)\<close> with the resolver of a schema: the resolver's issues become
  \<^verbatim>\<open>formState.errors\<close>, the first issue of each path; \<^verbatim>\<open>onSubmit\<close> is called with the
  values only when there is none.
\<close>

definition handleSubmit ::
  "('d \<Rightarrow> issue list) \<Rightarrow> ('d \<Rightarrow> (unit, 'a screen_scheme) prog) \<Rightarrow> 'd \<Rightarrow>
   (unit, 'a screen_scheme) prog" where
  "handleSubmit schema onValid vals s =
     (if schema vals = [] then onValid vals (s\<lparr>errors := Map.empty\<rparr>)
      else (Inr (), s\<lparr>errors := map_of (schema vals)\<rparr>))"

text \<open>The three forms, as their \<^verbatim>\<open>onSubmit\<close> attributes wire them.\<close>

definition Login_form :: "unit outcome \<Rightarrow> LoginFormData \<Rightarrow> (unit, 'a screen_scheme) prog" where
  "Login_form signIn_settled = handleSubmit loginSchema (Login_onSubmit signIn_settled)"

definition SignUp_form ::
  "unit outcome \<Rightarrow> unit outcome \<Rightarrow> SignUpFormData \<Rightarrow> (unit, 'a screen_scheme) prog" where
  "SignUp_form signUp_settled updateUserProfile_settled =
     handleSubmit signUpSchema (SignUp_onSubmit signUp_settled updateUserProfile_settled)"

definition ForgotPassword_form ::
  "unit outcome \<Rightarrow> ForgotPasswordFormData \<Rightarrow> (unit, 'a message_screen_scheme) prog" where
  "ForgotPassword_form resetPassword_settled =
     handleSubmit forgotPasswordSchema (ForgotPassword_onSubmit resetPassword_settled)"

text \<open>The banner of the login screen: \<^verbatim>\<open>{error && (<div>...{error}...</div>)}\<close>.\<close>

definition Login_banners :: "'a screen_scheme \<Rightarrow> string list" where
  "Login_banners s = (if error s \<noteq> [] then [error s] else [])"

section \<open>Session provider\<close>

text \<open>Modelled from the spec: the state of the session provider. The provider itself
  (\<^verbatim>\<open>contexts/AuthContext\<close>, whose \<^verbatim>\<open>useAuth\<close> every screen calls) is not among the sources.
  The spec gives it the current identity, \<open>session\<close> (\<open>None\<close>: anonymous); the accounts
  it knows, by email, with their password and identity, and the reset messages it has
  dispatched are what its operations are specified over.
\<close>

record provider =
  accounts :: "string \<rightharpoonup> string \<times> User"
  session :: "User option"
  dispatched :: "string list"

text \<open>Modelled from the spec: \<^verbatim>\<open>signIn\<close> of the missing session provider, "sign-in(email,
  password): authenticated session or fails with InvalidCredentials".
\<close>

definition signIn :: "provider \<Rightarrow> string \<Rightarrow> string \<Rightarrow> unit outcome \<times> provider" where
  "signIn p mail pw =
     (case accounts p mail of
        None \<Rightarrow> (Inl InvalidCredentials, p)
      | Some (stored, u) \<Rightarrow>
          if pw = stored then (Inr (), p\<lparr>session := Some u\<rparr>) else (Inl InvalidCredentials, p))"

text \<open>Modelled from the spec: \<^verbatim>\<open>resetPassword\<close> of the missing session provider,
  "reset-password(email): fails silently from the caller's perspective if the email does not
  exist (provider does not disclose existence); success means a reset message was
  dispatched, not the account exists". The caller is answered with success either way; a
  message goes out only for an account that exists.
\<close>

definition resetPassword :: "provider \<Rightarrow> string \<Rightarrow> unit outcome \<times> provider" where
  "resetPassword p mail =
     (Inr (),
      case accounts p mail of
        None \<Rightarrow> p
      | Some _ \<Rightarrow> p\<lparr>dispatched := dispatched p @ [mail]\<rparr>)"

section \<open>Idle states\<close>

text \<open>
  A handler has returned its screen to the interactive idle state showing \<open>msg\<close> when it
  ended normally, the loading flag is off and \<open>msg\<close>, which is not empty, is the error
  displayed.
\<close>

definition idle_showing :: "string \<Rightarrow> unit outcome \<times> 'a screen_scheme \<Rightarrow> bool" where
  "idle_showing msg r = (fst r = Inr () \<and> \<not> isLoading (snd r) \<and> error (snd r) = msg \<and> msg \<noteq> [])"

section \<open>Properties\<close>

lemmas prog_defs =
  returns_def bind_prog_def try_catch_def try_catch_finally_def
  setError_def setIsLoading_def navigate_def await_def

lemmas handler_defs =
  Login_onSubmit_def Login_handleGoogleSignIn_def SignUp_onSubmit_def
  ForgotPassword_onSubmit_def Profile_onSubmit_def Profile_handleImageChange_def
  Profile_fetchUserData_def setMessage_def setProfileImage_def setFetchingUserData_def
  reset_def getDoc_def setDoc_def

subsection \<open>The merge write\<close>

lemma merge_doc_written: "map_of data k = Some v \<Longrightarrow> merge_doc stored data k = Some v"
  by (simp add: merge_doc_def map_add_def)

lemma merge_doc_kept: "map_of data k = None \<Longrightarrow> merge_doc (Some old) data k = old k"
  by (simp add: merge_doc_def map_add_def)

lemma merge_doc_present: "old k \<noteq> None \<Longrightarrow> merge_doc (Some old) data k \<noteq> None"
  by (cases "map_of data k") (simp_all add: merge_doc_def map_add_def)

lemma merge_doc_new: "merge_doc None data = map_of data"
  by (simp add: merge_doc_def)

text \<open>
  C1. A profile save that goes through (both requests succeed, for the signed-in identity
  \<open>u\<close>) replaces the record stored under \<open>uid u\<close>, and no other, by the merge of the
  stored record with the submitted fields: the four form fields and the photo reference
  are written, the identity's email is copied into the record and \<open>updatedAt\<close> is the
  current time. A merge write keeps every stored field it does not write, with its value,
  so a field written by an earlier save is still present; writing \<open>{address: "X"}\<close> over
  a record created by writing \<open>{username: "Y"}\<close> gives a record with both.
\<close>

theorem profile_save_merges:
  "Profile_onSubmit (Some u) now (Inr ()) (Inr ()) d s =
     (Inr (),
      s\<lparr>error := [], isLoading := False, message := ''Profile updated successfully!'',
        users := (users s)(uid u \<mapsto>
          merge_doc (users s (uid u)) (profile_fields u now (profileImage s) d)),
        requests := requests s @
          [UpdateUserProfile (ProfileFormData.username d)
             (if truthy (profileImage s) then profileImage s else None),
           SetDoc (uid u) (profile_fields u now (profileImage s) d)]\<rparr>)
   \<and> merge_doc stored (profile_fields u now img d) ''username'' = Some (Str (ProfileFormData.username d))
   \<and> merge_doc stored (profile_fields u now img d) ''dob'' = Some (Str (dob d))
   \<and> merge_doc stored (profile_fields u now img d) ''mobileNumber'' = Some (Str (mobileNumber d))
   \<and> merge_doc stored (profile_fields u now img d) ''address'' = Some (Str (address d))
   \<and> merge_doc stored (profile_fields u now img d) ''photoURL'' = Some (nullable img)
   \<and> merge_doc stored (profile_fields u now img d) ''email'' = Some (nullable (user_email u))
   \<and> merge_doc stored (profile_fields u now img d) ''updatedAt'' = Some (Str now)
   \<and> (map_of data k = None \<longrightarrow> merge_doc (Some old) data k = old k)
   \<and> (old k \<noteq> None \<longrightarrow> merge_doc (Some old) data k \<noteq> None)
   \<and> merge_doc (Some (merge_doc None [(''username'', Str ''Y'')])) [(''address'', Str ''X'')]
         ''username'' = Some (Str ''Y'')
   \<and> merge_doc (Some (merge_doc None [(''username'', Str ''Y'')])) [(''address'', Str ''X'')]
         ''address'' = Some (Str ''X'')"
proof -
  have run: "Profile_onSubmit (Some u) now (Inr ()) (Inr ()) d s =
     (Inr (),
      s\<lparr>error := [], isLoading := False, message := ''Profile updated successfully!'',
        users := (users s)(uid u \<mapsto>
          merge_doc (users s (uid u)) (profile_fields u now (profileImage s) d)),
        requests := requests s @
          [UpdateUserProfile (ProfileFormData.username d)
             (if truthy (profileImage s) then profileImage s else None),
           SetDoc (uid u) (profile_fields u now (profileImage s) d)]\<rparr>)"
    by (simp add: handler_defs prog_defs)
  have written:
    "merge_doc stored (profile_fields u now img d) ''username'' = Some (Str (ProfileFormData.username d))"
    "merge_doc stored (profile_fields u now img d) ''dob'' = Some (Str (dob d))"
    "merge_doc stored (profile_fields u now img d) ''mobileNumber'' = Some (Str (mobileNumber d))"
    "merge_doc stored (profile_fields u now img d) ''address'' = Some (Str (address d))"
    "merge_doc stored (profile_fields u now img d) ''photoURL'' = Some (nullable img)"
    "merge_doc stored (profile_fields u now img d) ''email'' = Some (nullable (user_email u))"
    "merge_doc stored (profile_fields u now img d) ''updatedAt'' = Some (Str now)"
    by (simp_all add: merge_doc_written profile_fields_def)
  have example:
    "merge_doc (Some (merge_doc None [(''username'', Str ''Y'')])) [(''address'', Str ''X'')]
       ''username'' = Some (Str ''Y'')"
    "merge_doc (Some (merge_doc None [(''username'', Str ''Y'')])) [(''address'', Str ''X'')]
       ''address'' = Some (Str ''X'')"
    by (simp_all add: merge_doc_def map_add_def)
  from run written example show ?thesis
    by (simp add: merge_doc_kept merge_doc_present)
qed

theorem profile_save_merges_witness:
  "map_of [(''address'', Str ''X'')] ''username'' = None
   \<and> merge_doc (Some [''username'' \<mapsto> Str ''Y'']) [(''address'', Str ''X'')] ''username'' = Some (Str ''Y'')
   \<and> [''username'' \<mapsto> Str ''Y''] ''username'' \<noteq> None
   \<and> merge_doc (Some [''username'' \<mapsto> Str ''Y'']) [(''address'', Str ''X'')] ''username'' \<noteq> None"
  using profile_save_merges
    [where data = "[(''address'', Str ''X'')]" and k = "''username''"
       and old = "[''username'' \<mapsto> Str ''Y'']" and stored = None and img = None
       and now = "''2024-05-01T10:00:00.000Z''"
       and u = "\<lparr>uid = ''u1'', user_email = None, displayName = None, photoURL = None\<rparr>"
       and d = "\<lparr>username = ''annie'', dob = ''1990-01-01'', mobileNumber = ''0123456789'',
                address = ''1 Main Street''\<rparr>"
       and s = "Profile_init None Map.empty"]
  by simp

subsection \<open>The photo upload\<close>

text \<open>
  C2. A selected file whose content type does not start with \<open>image/\<close>, or whose size
  exceeds 5 MiB, is rejected with a validation message and nothing else changes: no request
  is issued, however the backend would have answered. A file that passes both checks is
  uploaded (the upload is the next request issued), and when the upload and the lookup of
  its reference succeed, the returned reference is the displayed preview.
\<close>

theorem photo_selection_checked:
  "(\<not> startsWith (file_type f) ''image/'' \<longrightarrow>
      Profile_handleImageChange cu ms up dl (Some f) s =
        (Inr (), s\<lparr>error := ''Please select an image file (PNG, JPG, etc.)''\<rparr>))
   \<and> (startsWith (file_type f) ''image/'' \<and> 5 * 1024 * 1024 < file_size f \<longrightarrow>
      Profile_handleImageChange cu ms up dl (Some f) s =
        (Inr (), s\<lparr>error := ''Image size should be less than 5MB''\<rparr>))
   \<and> (startsWith (file_type f) ''image/'' \<and> file_size f \<le> 5 * 1024 * 1024 \<longrightarrow>
      take (Suc (length (requests s)))
        (requests (snd (Profile_handleImageChange cu ms up dl (Some f) s))) =
        requests s @ [UploadBytes (fileRef cu ms f) f]
      \<and> Profile_handleImageChange cu ms (Inr ()) (Inr url) (Some f) s =
          (Inr (),
           s\<lparr>isLoading := False, profileImage := Some url,
             requests := requests s @
               [UploadBytes (fileRef cu ms f) f, GetDownloadURL (fileRef cu ms f)]\<rparr>))"
  by (cases up; cases dl) (simp_all add: handler_defs prog_defs)

theorem photo_selection_checked_witness:
  "\<not> startsWith (file_type \<lparr>file_name = ''cv.pdf'', file_type = ''application/pdf'', file_size = 1000\<rparr>) ''image/''
   \<and> requests (snd (Profile_handleImageChange None 0 (Inr ()) (Inr ''https://files/1'')
        (Some \<lparr>file_name = ''cv.pdf'', file_type = ''application/pdf'', file_size = 1000\<rparr>)
        (Profile_init None Map.empty))) = []
   \<and> startsWith (file_type \<lparr>file_name = ''big.png'', file_type = ''image/png'', file_size = 6000000\<rparr>) ''image/''
   \<and> 5 * 1024 * 1024 < file_size \<lparr>file_name = ''big.png'', file_type = ''image/png'', file_size = 6000000\<rparr>
   \<and> error (snd (Profile_handleImageChange None 0 (Inr ()) (Inr ''https://files/1'')
        (Some \<lparr>file_name = ''big.png'', file_type = ''image/png'', file_size = 6000000\<rparr>)
        (Profile_init None Map.empty))) = ''Image size should be less than 5MB''
   \<and> requests (snd (Profile_handleImageChange None 0 (Inr ()) (Inr ''https://files/1'')
        (Some \<lparr>file_name = ''big.png'', file_type = ''image/png'', file_size = 6000000\<rparr>)
        (Profile_init None Map.empty))) = []
   \<and> file_size \<lparr>file_name = ''me.png'', file_type = ''image/png'', file_size = 2000000\<rparr> \<le> 5 * 1024 * 1024
   \<and> profileImage (snd (Profile_handleImageChange None 0 (Inr ()) (Inr ''https://files/1'')
        (Some \<lparr>file_name = ''me.png'', file_type = ''image/png'', file_size = 2000000\<rparr>)
        (Profile_init None Map.empty))) = Some ''https://files/1''"
proof -
  have pdf: "\<not> startsWith (file_type \<lparr>file_name = ''cv.pdf'', file_type = ''application/pdf'', file_size = 1000\<rparr>) ''image/''"
    by (simp add: startsWith_def)
  have big: "startsWith (file_type \<lparr>file_name = ''big.png'', file_type = ''image/png'', file_size = 6000000\<rparr>) ''image/''
      \<and> 5 * 1024 * 1024 < file_size \<lparr>file_name = ''big.png'', file_type = ''image/png'', file_size = 6000000\<rparr>"
    by (simp add: startsWith_def)
  have png: "startsWith (file_type \<lparr>file_name = ''me.png'', file_type = ''image/png'', file_size = 2000000\<rparr>) ''image/''
      \<and> file_size \<lparr>file_name = ''me.png'', file_type = ''image/png'', file_size = 2000000\<rparr> \<le> 5 * 1024 * 1024"
    by (simp add: startsWith_def)
  note inst = photo_selection_checked
    [where cu = None and ms = 0 and up = "Inr ()" and dl = "Inr ''https://files/1''"
       and url = "''https://files/1''" and s = "Profile_init None Map.empty"]
  from pdf inst [where f = "\<lparr>file_name = ''cv.pdf'', file_type = ''application/pdf'', file_size = 1000\<rparr>"]
  have 1: "requests (snd (Profile_handleImageChange None 0 (Inr ()) (Inr ''https://files/1'')
        (Some \<lparr>file_name = ''cv.pdf'', file_type = ''application/pdf'', file_size = 1000\<rparr>)
        (Profile_init None Map.empty))) = []"
    by (simp add: Profile_init_def)
  from big inst [where f = "\<lparr>file_name = ''big.png'', file_type = ''image/png'', file_size = 6000000\<rparr>"]
  have 2: "error (snd (Profile_handleImageChange None 0 (Inr ()) (Inr ''https://files/1'')
        (Some \<lparr>file_name = ''big.png'', file_type = ''image/png'', file_size = 6000000\<rparr>)
        (Profile_init None Map.empty))) = ''Image size should be less than 5MB''
     \<and> requests (snd (Profile_handleImageChange None 0 (Inr ()) (Inr ''https://files/1'')
        (Some \<lparr>file_name = ''big.png'', file_type = ''image/png'', file_size = 6000000\<rparr>)
        (Profile_init None Map.empty))) = []"
    by (simp add: Profile_init_def)
  from png inst [where f = "\<lparr>file_name = ''me.png'', file_type = ''image/png'', file_size = 2000000\<rparr>"]
  have 3: "profileImage (snd (Profile_handleImageChange None 0 (Inr ()) (Inr ''https://files/1'')
        (Some \<lparr>file_name = ''me.png'', file_type = ''image/png'', file_size = 2000000\<rparr>)
        (Profile_init None Map.empty))) = Some ''https://files/1''"
    by simp
  from pdf big png 1 2 3 show ?thesis by blast
qed

subsection \<open>Numbers\<close>

text \<open>Rounding to a double: the binade is found, and representable values are fixed points.\<close>

lemma round_half_even_of_int: "round_half_even (of_int k) = k"
  by (simp add: round_half_even_def)

lemma quotient_of_pos:
  assumes "0 < a"
  shows "0 < fst (quotient_of a)" and "0 < snd (quotient_of a)"
    and "a = of_int (fst (quotient_of a)) / of_int (snd (quotient_of a))"
proof -
  obtain p q where pq: "quotient_of a = (p, q)" by (cases "quotient_of a")
  then have q: "0 < q" by (rule quotient_of_denom_pos)
  from pq have a: "a = of_int p / of_int q" by (rule quotient_of_div)
  with assms q have "0 < p" by (simp add: zero_less_divide_iff)
  with q a pq show "0 < fst (quotient_of a)" "0 < snd (quotient_of a)"
    "a = of_int (fst (quotient_of a)) / of_int (snd (quotient_of a))" by simp_all
qed

lemma two_powi_pos: "0 < (2::rat) powi k"
  by simp

lemma bitlen_rat_bounds:
  assumes "0 < p"
  shows "(2::rat) powi (bitlen p - 1) \<le> of_int p" and "of_int p < (2::rat) powi bitlen p"
proof -
  from assms have b: "2 ^ nat (bitlen p - 1) \<le> p" "p < 2 ^ nat (bitlen p)"
    using bitlen_bounds [of p] by simp_all
  have ge: "1 \<le> bitlen p"
  proof (rule ccontr)
    assume "\<not> 1 \<le> bitlen p"
    then have "nat (bitlen p) = 0" by simp
    with b(2) have "p < 1" by simp
    with assms show False by simp
  qed
  have "(2::rat) powi (bitlen p - 1) = of_int (2 ^ nat (bitlen p - 1))"
    using ge by (simp add: power_int_nonneg_exp)
  also have "\<dots> \<le> of_int p" using b(1) by (simp only: of_int_le_iff)
  finally show "(2::rat) powi (bitlen p - 1) \<le> of_int p" .
  have "of_int p < (of_int (2 ^ nat (bitlen p)) :: rat)" using b(2) by (simp only: of_int_less_iff)
  also have "\<dots> = 2 powi bitlen p" using ge by (simp add: power_int_nonneg_exp)
  finally show "of_int p < (2::rat) powi bitlen p" .
qed

lemma binade_bounds:
  assumes "0 < a"
  shows "2 powi binade a \<le> a" and "a < 2 powi (binade a + 1)"
proof -
  define p where "p = fst (quotient_of a)"
  define q where "q = snd (quotient_of a)"
  define d where "d = bitlen p - bitlen q"
  from assms have p: "0 < p" and q: "0 < q" and a: "a = of_int p / of_int q"
    unfolding p_def q_def by (rule quotient_of_pos)+
  have qr: "(0::rat) < of_int q" using q by simp
  have lo: "2 powi (d - 1) \<le> a"
  proof -
    have "(2::rat) powi (d - 1) * of_int q \<le> 2 powi (d - 1) * 2 powi bitlen q"
      using bitlen_rat_bounds(2) [OF q] two_powi_pos [of "d - 1"]
      by (simp add: mult_le_cancel_left_pos less_imp_le)
    also have "\<dots> = 2 powi (bitlen p - 1)"
      by (simp add: d_def flip: power_int_add)
    also have "\<dots> \<le> of_int p" by (rule bitlen_rat_bounds(1) [OF p])
    finally show ?thesis using qr by (simp add: a pos_le_divide_eq)
  qed
  have hi: "a < 2 powi (d + 1)"
  proof -
    have "of_int p < (2::rat) powi bitlen p" by (rule bitlen_rat_bounds(2) [OF p])
    also have "\<dots> = 2 powi (d + 1) * 2 powi (bitlen q - 1)"
      by (simp add: d_def flip: power_int_add)
    also have "\<dots> \<le> 2 powi (d + 1) * of_int q"
      using bitlen_rat_bounds(1) [OF q] two_powi_pos [of "d + 1"]
      by (simp add: mult_le_cancel_left_pos)
    finally show ?thesis using qr by (simp add: a pos_divide_less_eq)
  qed
  have b: "binade a = (if 2 powi d \<le> a then d else d - 1)"
    by (simp add: binade_def Let_def d_def p_def q_def)
  show "2 powi binade a \<le> a" using lo by (simp add: b)
  show "a < 2 powi (binade a + 1)" using hi by (simp add: b not_le)
qed

lemma binade_eqI:
  assumes "2 powi k \<le> a" and "a < 2 powi (k + 1)"
  shows "binade a = k"
proof -
  have pos: "0 < a" by (rule less_le_trans [OF two_powi_pos assms(1)])
  note b = binade_bounds [OF pos]
  have "(2::rat) powi k < 2 powi (binade a + 1)" using assms(1) b(2) by simp
  then have 1: "k < binade a + 1"
    by (metis not_less one_le_numeral power_int_increasing)
  have "(2::rat) powi binade a < 2 powi (k + 1)" using assms(2) b(1) by simp
  then have 2: "binade a < k + 1"
    by (metis not_less one_le_numeral power_int_increasing)
  from 1 2 show ?thesis by simp
qed

lemma to_double_exact:
  assumes lo: "2 powi e \<le> \<bar>x\<bar>" and hi: "\<bar>x\<bar> < 2 powi (e + 1)"
    and e: "- 1022 \<le> e" "e \<le> 1023"
    and m: "\<bar>x\<bar> / 2 powi (e - 52) = of_int m"
  shows "to_double x = Finite x"
proof -
  have "0 < \<bar>x\<bar>" by (rule less_le_trans [OF two_powi_pos lo])
  then have nz: "x \<noteq> 0" by simp
  have b: "binade \<bar>x\<bar> = e" using lo hi by (rule binade_eqI)
  have q: "(2::rat) powi (e - 52) \<noteq> 0" by simp
  have "of_int (round_half_even (\<bar>x\<bar> / 2 powi (e - 52))) = \<bar>x\<bar> / 2 powi (e - 52)"
    by (simp only: m round_half_even_of_int)
  then have r: "of_int (round_half_even (\<bar>x\<bar> / 2 powi (e - 52))) * 2 powi (e - 52) = \<bar>x\<bar>"
    using q by simp
  have "(2::rat) powi (e + 1) \<le> 2 powi 1024"
    using e by (intro power_int_increasing) simp_all
  with hi have small: "\<not> 2 powi 1024 \<le> \<bar>x\<bar>" by simp
  have mx: "max (binade \<bar>x\<bar>) (- 1022) = e" using b e by simp
  have sg: "sgn x * \<bar>x\<bar> = x" by (simp add: sgn_mult_abs)
  show ?thesis
    unfolding to_double_def Let_def mx r sg
    using nz small by (simp only: if_False)
qed

lemma to_double_int:
  assumes "\<bar>n\<bar> < 2 ^ 53"
  shows "to_double (of_int n) = Finite (of_int n)"
proof (cases "n = 0")
  case True
  then show ?thesis by (simp add: to_double_def)
next
  case False
  define a :: rat where "a = \<bar>of_int n\<bar>"
  have a1: "1 \<le> a" using False by (simp add: a_def flip: of_int_abs)
  then have pos: "0 < a" by simp
  have a53: "a < 2 powi 53" using assms by (simp add: a_def flip: of_int_abs)
  define e where "e = binade a"
  have lo: "2 powi e \<le> a" and hi: "a < 2 powi (e + 1)"
    unfolding e_def by (rule binade_bounds [OF pos])+
  have "(2::rat) powi 0 < 2 powi (e + 1)" using a1 hi by simp
  then have e0: "0 \<le> e"
    by (metis not_less one_le_numeral power_int_increasing zle_add1_eq_le)
  have "(2::rat) powi e < 2 powi 53" using lo a53 by simp
  then have e52: "e \<le> 52"
    by (metis not_less one_le_numeral power_int_increasing zle_add1_eq_le
        numeral_plus_one semiring_norm(5))
  have "a / 2 powi (e - 52) = a * 2 powi (52 - e)"
    by (simp add: power_int_diff field_simps)
  also have "\<dots> = of_int (\<bar>n\<bar> * 2 ^ nat (52 - e))"
    using e52 by (simp add: a_def power_int_nonneg_exp flip: of_int_abs)
  finally have m: "a / 2 powi (e - 52) = of_int (\<bar>n\<bar> * 2 ^ nat (52 - e))" .
  have range: "- 1022 \<le> e" "e \<le> 1023" using e0 e52 by simp_all
  show ?thesis
    by (rule to_double_exact [OF lo [unfolded a_def] hi [unfolded a_def] range m [unfolded a_def]])
qed

text \<open>The conversion on concrete strings, and on every string of decimal digits.\<close>

lemma to_double_numeral:
  "numeral k < (2::int) ^ 53 \<Longrightarrow> to_double (numeral k) = Finite (numeral k)"
  "numeral k < (2::int) ^ 53 \<Longrightarrow> to_double (- numeral k) = Finite (- numeral k)"
  using to_double_int [of "numeral k"] to_double_int [of "- numeral k"] by simp_all

lemmas number_defs =
  Number_def trim_def is_space_def non_decimal_def unsigned_decimal_def exponent_part_def
  is_digit_def digit_value_def digits_value_def

lemma Number_examples:
  "Number ''17'' = Finite 17"
  "Number ''abc'' = NaN"
  "Number ''-5'' = Finite (- 5)"
  "Number ''18'' = Finite 18"
  "Number ''99'' = Finite 99"
  "Number '''' = Finite 0"
  "Number '' 21 '' = Finite 21"
  "Number ''0x12'' = Finite 18"
  "Number ''1e2'' = Finite 100"
  "Number ''Infinity'' = PosInfinity"
  "Number ''18 years'' = NaN"
  by (simp_all add: number_defs to_double_numeral)

lemma age_rule_iff:
  "(\<not> isNaN (Number val) \<and> number_ge (Number val) (Finite 18)) = parses_as_number_at_least 18 val"
  by (cases "Number val") (simp_all add: parses_as_number_at_least_def isNaN_def)

lemma age_issue:
  "map_of (signUpSchema d) ''age'' =
     (if parses_as_number_at_least 18 (age d) then None else Some ''You must be at least 18 years old'')"
  by (simp add: signUpSchema_def z_min_def z_email_def z_refine_def age_rule_iff)

lemma digit_value_digit: "c \<in> set ''0123456789'' \<Longrightarrow> digit_value c < 10"
proof -
  have "list_all (\<lambda>c. digit_value c < 10) ''0123456789''"
    by (simp add: digit_value_def)
  then show "c \<in> set ''0123456789'' \<Longrightarrow> digit_value c < 10"
    unfolding list_all_iff by blast
qed

lemma digit_value_letter: "c \<in> set ''abcdefABCDEF'' \<Longrightarrow> \<not> digit_value c < 10"
proof -
  have "list_all (\<lambda>c. \<not> digit_value c < 10) ''abcdefABCDEF''"
    by (simp add: digit_value_def)
  then show "c \<in> set ''abcdefABCDEF'' \<Longrightarrow> \<not> digit_value c < 10"
    unfolding list_all_iff by blast
qed

lemma is_digit_10: "is_digit 10 c = (c \<in> set ''0123456789'')"
proof -
  have split: "set ''0123456789abcdefABCDEF'' = set ''0123456789'' \<union> set ''abcdefABCDEF''"
    by (simp only: set_append [symmetric] append.simps)
  show ?thesis
    unfolding is_digit_def split
    using digit_value_digit [of c] digit_value_letter [of c] by blast
qed

lemma digit_not_space: "is_digit 10 c \<Longrightarrow> \<not> is_space c"
proof -
  have "list_all (\<lambda>c. \<not> is_space c) ''0123456789''"
    by (simp add: is_space_def)
  then show "is_digit 10 c \<Longrightarrow> \<not> is_space c"
    unfolding list_all_iff is_digit_10 by blast
qed

lemma digit_not_special:
  assumes "is_digit 10 c"
  shows "c \<notin> set ''xXoObB''" and "c \<notin> set ''+-''" and "c \<noteq> CHR ''I''"
proof -
  have "list_all (\<lambda>c. c \<notin> set ''xXoObB'' \<and> c \<notin> set ''+-'' \<and> c \<noteq> CHR ''I'') ''0123456789''"
    by simp
  with assms show "c \<notin> set ''xXoObB''" and "c \<notin> set ''+-''" and "c \<noteq> CHR ''I''"
    unfolding list_all_iff is_digit_10 by blast+
qed

lemma trim_digits:
  assumes "list_all (is_digit 10) ds"
  shows "trim ds = ds"
proof (cases ds rule: rev_cases)
  case Nil
  then show ?thesis by (simp add: trim_def)
next
  case (snoc ys y)
  with assms have y: "\<not> is_space y" by (simp add: digit_not_space)
  from snoc assms have "\<not> is_space (hd ds)"
    by (cases ys) (simp_all add: digit_not_space)
  moreover from snoc have "ds \<noteq> []" by simp
  ultimately have "dropWhile is_space ds = ds" by (cases ds) simp_all
  with y snoc show ?thesis by (simp add: trim_def)
qed

lemma non_decimal_digits:
  assumes "list_all (is_digit 10) ds"
  shows "non_decimal ds = None"
proof (cases ds)
  case Nil
  then show ?thesis by (simp add: non_decimal_def)
next
  case outer: (Cons a as)
  show ?thesis
  proof (cases as)
    case Nil
    with outer show ?thesis by (simp add: non_decimal_def)
  next
    case (Cons b bs)
    with assms outer have "is_digit 10 b" by simp
    then have "b \<notin> set ''xXoObB''" by (rule digit_not_special)
    with Cons outer show ?thesis by (simp add: non_decimal_def)
  qed
qed

lemma unsigned_decimal_digits:
  assumes "list_all (is_digit 10) ds" and "ds \<noteq> []"
  shows "unsigned_decimal ds = Some (of_int (digits_value 10 ds))"
proof -
  from assms(1) have tw: "takeWhile (is_digit 10) ds = ds"
    and dw: "dropWhile (is_digit 10) ds = []"
    by (simp_all add: list_all_iff)
  show ?thesis
    by (simp add: unsigned_decimal_def Let_def tw dw exponent_part_def assms(2))
qed

lemma Number_digits:
  assumes "list_all (is_digit 10) ds" and "ds \<noteq> []" and "\<bar>digits_value 10 ds\<bar> < 2 ^ 53"
  shows "Number ds = Finite (of_int (digits_value 10 ds))"
proof -
  from assms(1,2) have d: "is_digit 10 (hd ds)" by (cases ds) simp_all
  have sign: "hd ds \<notin> set ''+-''" and i: "hd ds \<noteq> CHR ''I''"
    using d by (rule digit_not_special)+
  from sign have minus: "hd ds \<noteq> CHR ''-''" by auto
  from i assms(2) have inf: "ds \<noteq> ''Infinity''" by auto
  have "Number ds = to_double (of_int (digits_value 10 ds))"
    using assms(2) sign minus inf
    by (simp add: Number_def Let_def trim_digits [OF assms(1)] non_decimal_digits [OF assms(1)]
        unsigned_decimal_digits [OF assms(1,2)])
  with assms(3) show ?thesis by (simp add: to_double_int)
qed

lemma age_digits:
  assumes "list_all (is_digit 10) ds" and "ds \<noteq> []" and "\<bar>digits_value 10 ds\<bar> < 2 ^ 53"
  shows "parses_as_number_at_least 18 ds = (18 \<le> digits_value 10 ds)"
  by (simp add: parses_as_number_at_least_def Number_digits [OF assms])

text \<open>
  The rounding is part of the conversion: a literal less than half a unit in the last place
  below 18 converts to 18.
\<close>

lemma to_double_below_18:
  "to_double (17999999999999999 / 1000000000000000) = Finite 18"
proof -
  let ?x = "17999999999999999 / 1000000000000000 :: rat"
  have ax: "\<bar>?x\<bar> = ?x" by simp
  have b: "binade ?x = 4" by (rule binade_eqI) simp_all
  have mx: "max (binade ?x) (- 1022) = 4" unfolding b by simp
  have y: "?x / 2 powi (4 - 52) = 154618822655999991410065408 / 30517578125"
    by simp
  have f: "\<lfloor>154618822655999991410065408 / 30517578125 :: rat\<rfloor> = 5066549580791807"
    by (rule floor_unique) simp_all
  have r: "round_half_even (?x / 2 powi (4 - 52)) = 18 * 2 ^ 48"
    unfolding y by (simp add: round_half_even_def Let_def f)
  show ?thesis
    unfolding to_double_def Let_def ax mx r by simp
qed

lemma Number_rounds: "Number ''17.999999999999999'' = Finite 18"
proof -
  have "Number ''17.999999999999999'' = to_double (17999999999999999 / 1000000000000000)"
    by (simp add: number_defs)
  then show ?thesis by (simp only: to_double_below_18)
qed

text \<open>
  C3. The age field is accepted (the schema attaches no issue to \<open>age\<close>) if and only if
  the input parses as a number that is at least 18, and it is rejected with the age message
  otherwise: validation is a total function, so input that is not numeric is a violation
  like any other. \<open>17\<close>, \<open>abc\<close> and \<open>-5\<close> are rejected, \<open>18\<close> and \<open>99\<close> accepted,
  whatever the other fields hold. For an input made of decimal digits only (of a value
  below \<open>2\<^sup>5\<^sup>3\<close>) this is the comparison of its value with 18.
\<close>

theorem age_accepted_iff:
  "(map_of (signUpSchema d) ''age'' = None) = parses_as_number_at_least 18 (age d)
   \<and> map_of (signUpSchema d) ''age'' =
       (if parses_as_number_at_least 18 (age d) then None
        else Some ''You must be at least 18 years old'')
   \<and> map_of (signUpSchema (d\<lparr>age := ''17''\<rparr>)) ''age'' = Some ''You must be at least 18 years old''
   \<and> map_of (signUpSchema (d\<lparr>age := ''abc''\<rparr>)) ''age'' = Some ''You must be at least 18 years old''
   \<and> map_of (signUpSchema (d\<lparr>age := ''-5''\<rparr>)) ''age'' = Some ''You must be at least 18 years old''
   \<and> map_of (signUpSchema (d\<lparr>age := ''18''\<rparr>)) ''age'' = None
   \<and> map_of (signUpSchema (d\<lparr>age := ''99''\<rparr>)) ''age'' = None
   \<and> (list_all (is_digit 10) (age d) \<and> age d \<noteq> [] \<and> \<bar>digits_value 10 (age d)\<bar> < 2 ^ 53 \<longrightarrow>
        (map_of (signUpSchema d) ''age'' = None) = (18 \<le> digits_value 10 (age d)))"
proof -
  have examples:
    "\<not> parses_as_number_at_least 18 ''17''"
    "\<not> parses_as_number_at_least 18 ''abc''"
    "\<not> parses_as_number_at_least 18 ''-5''"
    "parses_as_number_at_least 18 ''18''"
    "parses_as_number_at_least 18 ''99''"
    by (simp_all add: parses_as_number_at_least_def Number_examples)
  have iff: "(map_of (signUpSchema d) ''age'' = None) = parses_as_number_at_least 18 (age d)"
    by (simp add: age_issue)
  have digits: "list_all (is_digit 10) (age d) \<and> age d \<noteq> [] \<and> \<bar>digits_value 10 (age d)\<bar> < 2 ^ 53 \<longrightarrow>
        (map_of (signUpSchema d) ''age'' = None) = (18 \<le> digits_value 10 (age d))"
    using age_digits [of "age d"] by (simp add: iff)
  show ?thesis
    using iff digits by (simp add: age_issue examples)
qed

theorem age_accepted_iff_witness:
  "list_all (is_digit 10)
     (age \<lparr>SignUpFormData.username = ''annie'', SignUpFormData.email = ''ann@example.com'',
          SignUpFormData.password = ''secret1'', confirmPassword = ''secret1'', age = ''21''\<rparr>)
   \<and> age \<lparr>SignUpFormData.username = ''annie'', SignUpFormData.email = ''ann@example.com'',
          SignUpFormData.password = ''secret1'', confirmPassword = ''secret1'', age = ''21''\<rparr> \<noteq> []
   \<and> \<bar>digits_value 10
       (age \<lparr>SignUpFormData.username = ''annie'', SignUpFormData.email = ''ann@example.com'',
          SignUpFormData.password = ''secret1'', confirmPassword = ''secret1'', age = ''21''\<rparr>)\<bar> < 2 ^ 53
   \<and> 18 \<le> digits_value 10
       (age \<lparr>SignUpFormData.username = ''annie'', SignUpFormData.email = ''ann@example.com'',
          SignUpFormData.password = ''secret1'', confirmPassword = ''secret1'', age = ''21''\<rparr>)
   \<and> map_of (signUpSchema
         \<lparr>SignUpFormData.username = ''annie'', SignUpFormData.email = ''ann@example.com'',
          SignUpFormData.password = ''secret1'', confirmPassword = ''secret1'', age = ''21''\<rparr>)
       ''age'' = None"
proof -
  have h: "list_all (is_digit 10)
     (age \<lparr>SignUpFormData.username = ''annie'', SignUpFormData.email = ''ann@example.com'',
          SignUpFormData.password = ''secret1'', confirmPassword = ''secret1'', age = ''21''\<rparr>)
   \<and> age \<lparr>SignUpFormData.username = ''annie'', SignUpFormData.email = ''ann@example.com'',
          SignUpFormData.password = ''secret1'', confirmPassword = ''secret1'', age = ''21''\<rparr> \<noteq> []
   \<and> \<bar>digits_value 10
       (age \<lparr>SignUpFormData.username = ''annie'', SignUpFormData.email = ''ann@example.com'',
          SignUpFormData.password = ''secret1'', confirmPassword = ''secret1'', age = ''21''\<rparr>)\<bar> < 2 ^ 53
   \<and> 18 \<le> digits_value 10
       (age \<lparr>SignUpFormData.username = ''annie'', SignUpFormData.email = ''ann@example.com'',
          SignUpFormData.password = ''secret1'', confirmPassword = ''secret1'', age = ''21''\<rparr>)"
    by (simp add: is_digit_10 digits_value_def digit_value_def)
  with age_accepted_iff
    [of "\<lparr>SignUpFormData.username = ''annie'', SignUpFormData.email = ''ann@example.com'',
          SignUpFormData.password = ''secret1'', confirmPassword = ''secret1'', age = ''21''\<rparr>"]
  show ?thesis by blast
qed

subsection \<open>Validation\<close>

lemma isEmail_has_at: "isEmail str \<Longrightarrow> CHR ''@'' \<in> set str"
proof (rule ccontr)
  assume e: "isEmail str" and "CHR ''@'' \<notin> set str"
  then have "dropWhile (\<lambda>c. c \<noteq> CHR ''@'') str = []"
    by auto
  with e show False by (simp add: isEmail_def Let_def)
qed

lemma z_email_no_at: "CHR ''@'' \<notin> set val \<Longrightarrow> z_email msg path val = [(path, msg)]"
  using isEmail_has_at [of val] by (auto simp add: z_email_def)

text \<open>The email pattern and the schemas on concrete values; a form that passes reaches its handler.\<close>

lemmas email_defs =
  isEmail_def domain_ok_def label_ok_def local_char_def local_last_char_def
  is_alnum_def is_letter_def

lemma isEmail_examples:
  "isEmail ''ann@example.com''"
  "isEmail ''Ann.O'Neil+news@mail.example.org''"
  "\<not> isEmail ''ann.example.com''"
  "\<not> isEmail ''ann@example''"
  "\<not> isEmail ''ann@example.c''"
  "\<not> isEmail ''.ann@example.com''"
  "\<not> isEmail ''ann..b@example.com''"
  "\<not> isEmail ''ann.@example.com''"
  "\<not> isEmail ''ann@@example.com''"
  "\<not> isEmail ''ann@-example.com''"
  "\<not> isEmail ''''"
  by (simp_all add: email_defs)

lemma handleSubmit_valid:
  "schema vals = [] \<Longrightarrow> handleSubmit schema onValid vals s = onValid vals (s\<lparr>errors := Map.empty\<rparr>)"
  by (simp add: handleSubmit_def)

lemma handleSubmit_invalid:
  "schema vals \<noteq> [] \<Longrightarrow>
     handleSubmit schema onValid vals s = (Inr (), s\<lparr>errors := map_of (schema vals)\<rparr>)"
  by (simp add: handleSubmit_def)

lemma loginSchema_example:
  "loginSchema \<lparr>LoginFormData.email = ''ann@example.com'', LoginFormData.password = ''secret1''\<rparr> = []"
  by (simp add: loginSchema_def z_email_def z_min_def isEmail_examples)

lemma signUpSchema_example:
  "signUpSchema
     \<lparr>SignUpFormData.username = ''annie'', SignUpFormData.email = ''ann@example.com'',
      SignUpFormData.password = ''secret1'', confirmPassword = ''secret1'', age = ''30''\<rparr> = []"
  by (simp add: signUpSchema_def z_email_def z_min_def z_refine_def isEmail_examples
      isNaN_def number_defs to_double_numeral)

text \<open>
  C4. Whenever the password and its confirmation differ, sign-up validation rejects: the
  schema raises issues, the error attached to \<open>confirmPassword\<close> is the mismatch message,
  no issue with that message is attached to \<open>password\<close>, and the form only records the
  errors (the submit handler is not called, so nothing is requested or navigated to).
\<close>

theorem password_mismatch_rejected:
  "SignUpFormData.password d \<noteq> confirmPassword d \<Longrightarrow>
     signUpSchema d \<noteq> []
     \<and> map_of (signUpSchema d) ''confirmPassword'' = Some ''Passwords don't match''
     \<and> (''password'', ''Passwords don't match'') \<notin> set (signUpSchema d)
     \<and> SignUp_form r1 r2 d s = (Inr (), s\<lparr>errors := map_of (signUpSchema d)\<rparr>)"
  by (simp add: SignUp_form_def handleSubmit_def signUpSchema_def z_email_def z_min_def z_refine_def)

theorem password_mismatch_rejected_witness:
  "SignUpFormData.password
     \<lparr>SignUpFormData.username = ''annie'', SignUpFormData.email = ''ann@example.com'',
      SignUpFormData.password = ''secret1'', confirmPassword = ''secret2'', age = ''30''\<rparr>
   \<noteq> confirmPassword
     \<lparr>SignUpFormData.username = ''annie'', SignUpFormData.email = ''ann@example.com'',
      SignUpFormData.password = ''secret1'', confirmPassword = ''secret2'', age = ''30''\<rparr>
   \<and> map_of (signUpSchema
        \<lparr>SignUpFormData.username = ''annie'', SignUpFormData.email = ''ann@example.com'',
         SignUpFormData.password = ''secret1'', confirmPassword = ''secret2'', age = ''30''\<rparr>)
       ''confirmPassword'' = Some ''Passwords don't match''"
  using password_mismatch_rejected
    [where d = "\<lparr>SignUpFormData.username = ''annie'', SignUpFormData.email = ''ann@example.com'',
          SignUpFormData.password = ''secret1'', confirmPassword = ''secret2'', age = ''30''\<rparr>"
       and ?r1.0 = "Inr ()" and ?r2.0 = "Inr ()"
       and s = "\<lparr>error = [], isLoading = False, errors = Map.empty, navigated = [], requests = []\<rparr>"]
  by simp

text \<open>
  C5. On the sign-in, sign-up and forgot-password forms, an email without \<open>@\<close> is
  rejected by the validator: the form's error for \<open>email\<close> is the email-shape message,
  and the submission issues no request, whatever the backend would have answered.
\<close>

theorem email_without_at_rejected:
  "(CHR ''@'' \<notin> set (LoginFormData.email d1) \<longrightarrow>
      fst (Login_form r1 d1 s1) = Inr ()
      \<and> errors (snd (Login_form r1 d1 s1)) ''email'' = Some ''Please enter a valid email address''
      \<and> requests (snd (Login_form r1 d1 s1)) = requests s1)
   \<and> (CHR ''@'' \<notin> set (SignUpFormData.email d2) \<longrightarrow>
      fst (SignUp_form r2 r3 d2 s1) = Inr ()
      \<and> errors (snd (SignUp_form r2 r3 d2 s1)) ''email'' = Some ''Please enter a valid email address''
      \<and> requests (snd (SignUp_form r2 r3 d2 s1)) = requests s1)
   \<and> (CHR ''@'' \<notin> set (ForgotPasswordFormData.email d3) \<longrightarrow>
      fst (ForgotPassword_form r4 d3 s2) = Inr ()
      \<and> errors (snd (ForgotPassword_form r4 d3 s2)) ''email'' = Some ''Please enter a valid email address''
      \<and> requests (snd (ForgotPassword_form r4 d3 s2)) = requests s2)"
  by (simp add: Login_form_def SignUp_form_def ForgotPassword_form_def handleSubmit_def
      loginSchema_def signUpSchema_def forgotPasswordSchema_def z_email_no_at z_min_def)

theorem email_without_at_rejected_witness:
  "CHR ''@'' \<notin> set (LoginFormData.email \<lparr>LoginFormData.email = ''ann.example.com'', LoginFormData.password = ''secret1''\<rparr>)
   \<and> requests (snd (Login_form (Inr ())
        \<lparr>LoginFormData.email = ''ann.example.com'', LoginFormData.password = ''secret1''\<rparr>
        \<lparr>error = [], isLoading = False, errors = Map.empty, navigated = [], requests = []\<rparr>)) = []
   \<and> CHR ''@'' \<notin> set (SignUpFormData.email
        \<lparr>SignUpFormData.username = ''annie'', SignUpFormData.email = ''ann.example.com'',
         SignUpFormData.password = ''secret1'', confirmPassword = ''secret1'', age = ''30''\<rparr>)
   \<and> requests (snd (SignUp_form (Inr ()) (Inr ())
        \<lparr>SignUpFormData.username = ''annie'', SignUpFormData.email = ''ann.example.com'',
         SignUpFormData.password = ''secret1'', confirmPassword = ''secret1'', age = ''30''\<rparr>
        \<lparr>error = [], isLoading = False, errors = Map.empty, navigated = [], requests = []\<rparr>)) = []
   \<and> CHR ''@'' \<notin> set (ForgotPasswordFormData.email \<lparr>ForgotPasswordFormData.email = ''ann.example.com''\<rparr>)
   \<and> requests (snd (ForgotPassword_form (Inr ())
        \<lparr>ForgotPasswordFormData.email = ''ann.example.com''\<rparr>
        \<lparr>error = [], isLoading = False, errors = Map.empty, navigated = [], requests = [],
         message = []\<rparr>)) = []"
  using email_without_at_rejected
    [where ?d1.0 = "\<lparr>LoginFormData.email = ''ann.example.com'', LoginFormData.password = ''secret1''\<rparr>"
       and ?r1.0 = "Inr ()"
       and ?s1.0 = "\<lparr>error = [], isLoading = False, errors = Map.empty, navigated = [], requests = []\<rparr>"
       and ?d2.0 = "\<lparr>SignUpFormData.username = ''annie'', SignUpFormData.email = ''ann.example.com'',
           SignUpFormData.password = ''secret1'', confirmPassword = ''secret1'', age = ''30''\<rparr>"
       and ?r2.0 = "Inr ()" and ?r3.0 = "Inr ()"
       and ?d3.0 = "\<lparr>ForgotPasswordFormData.email = ''ann.example.com''\<rparr>"
       and ?r4.0 = "Inr ()"
       and ?s2.0 = "\<lparr>error = [], isLoading = False, errors = Map.empty, navigated = [], requests = [],
           message = []\<rparr>"]
  by simp

subsection \<open>The screens\<close>

text \<open>
  C6. Against the session provider as the spec describes it, resetting the password of an
  email that has no account fails silently: the caller is answered with success, nothing is
  dispatched and the provider is unchanged. The forgot-password screen therefore ends in
  the same state, with the same success message and no error, whether the account exists or
  not; a successful result does not tell that it does.
\<close>

theorem reset_password_discloses_nothing:
  "fst (resetPassword p mail) = Inr ()
   \<and> (accounts p mail = None \<longrightarrow> snd (resetPassword p mail) = p)
   \<and> ForgotPassword_onSubmit (fst (resetPassword p (ForgotPasswordFormData.email d))) d s =
       (Inr (),
        s\<lparr>error := [], isLoading := False,
          requests := requests s @ [ResetPassword (ForgotPasswordFormData.email d)],
          message := ''Check your inbox for password reset instructions.''\<rparr>)"
  by (simp add: resetPassword_def handler_defs prog_defs)

theorem reset_password_discloses_nothing_witness:
  "accounts \<lparr>accounts = Map.empty, session = None, dispatched = []\<rparr> ''nobody@example.com'' = None
   \<and> fst (resetPassword \<lparr>accounts = Map.empty, session = None, dispatched = []\<rparr> ''nobody@example.com'') = Inr ()
   \<and> dispatched (snd (resetPassword \<lparr>accounts = Map.empty, session = None, dispatched = []\<rparr>
        ''nobody@example.com'')) = []"
  using reset_password_discloses_nothing
    [where p = "\<lparr>accounts = Map.empty, session = None, dispatched = []\<rparr>"
       and mail = "''nobody@example.com''"
       and d = "\<lparr>ForgotPasswordFormData.email = ''nobody@example.com''\<rparr>"
       and s = "\<lparr>error = [], isLoading = False, errors = Map.empty, navigated = [], requests = [],
           message = []\<rparr>"]
  by simp

text \<open>
  C7. Every failure of a screen operation returns the screen to the interactive idle state:
  when sign-in, Google sign-in, account creation or the display-name update of sign-up,
  the password reset, the identity update or the record write of a profile save, or the
  upload or the reference lookup of a photo upload is rejected, the handler still ends
  normally, the loading flag is off and the operation's failure message is displayed.
\<close>

theorem failures_return_to_idle:
  "idle_showing ''Failed to sign in. Please check your credentials.'' (Login_onSubmit (Inl e) d1 s1)
   \<and> idle_showing ''Failed to sign in with Google.'' (Login_handleGoogleSignIn (Inl e) s1)
   \<and> idle_showing ''Failed to create an account.'' (SignUp_onSubmit (Inl e) r d2 s1)
   \<and> idle_showing ''Failed to create an account.'' (SignUp_onSubmit (Inr ()) (Inl e) d2 s1)
   \<and> idle_showing ''Failed to reset password. Please check your email address.''
        (ForgotPassword_onSubmit (Inl e) d3 s2)
   \<and> idle_showing ''Failed to update profile.'' (Profile_onSubmit cu now (Inl e) r d4 s3)
   \<and> idle_showing ''Failed to update profile.'' (Profile_onSubmit (Some u) now (Inr ()) (Inl e) d4 s3)
   \<and> (startsWith (file_type f) ''image/'' \<and> file_size f \<le> 5 * 1024 * 1024 \<longrightarrow>
        idle_showing ''Failed to upload image.'' (Profile_handleImageChange cu ms (Inl e) g (Some f) s3)
        \<and> idle_showing ''Failed to upload image.''
             (Profile_handleImageChange cu ms (Inr ()) (Inl e) (Some f) s3))"
  by (simp add: idle_showing_def handler_defs prog_defs)

theorem failures_return_to_idle_witness:
  "startsWith (file_type \<lparr>file_name = ''me.png'', file_type = ''image/png'', file_size = 2000000\<rparr>) ''image/''
   \<and> file_size \<lparr>file_name = ''me.png'', file_type = ''image/png'', file_size = 2000000\<rparr> \<le> 5 * 1024 * 1024
   \<and> idle_showing ''Failed to upload image.''
        (Profile_handleImageChange None 0 (Inl UploadFailed) (Inr ''u'')
           (Some \<lparr>file_name = ''me.png'', file_type = ''image/png'', file_size = 2000000\<rparr>)
           (Profile_init None Map.empty))
   \<and> idle_showing ''Failed to upload image.''
        (Profile_handleImageChange None 0 (Inr ()) (Inl UploadFailed)
           (Some \<lparr>file_name = ''me.png'', file_type = ''image/png'', file_size = 2000000\<rparr>)
           (Profile_init None Map.empty))"
proof -
  have ok: "startsWith (file_type \<lparr>file_name = ''me.png'', file_type = ''image/png'', file_size = 2000000\<rparr>) ''image/''
    \<and> file_size \<lparr>file_name = ''me.png'', file_type = ''image/png'', file_size = 2000000\<rparr> \<le> 5 * 1024 * 1024"
    by (simp add: startsWith_def)
  with failures_return_to_idle
    [where f = "\<lparr>file_name = ''me.png'', file_type = ''image/png'', file_size = 2000000\<rparr>"
       and cu = None and ms = 0 and e = UploadFailed and g = "Inr ''u''"
       and ?s3.0 = "Profile_init None Map.empty"]
  show ?thesis by blast
qed

text \<open>
  C8. When the sign-in that the login screen awaits resolves, the screen navigates to
  \<open>/profile\<close> and shows no banner; when it is rejected, the screen navigates nowhere
  and shows exactly one error banner. Against the session provider as the spec describes
  it, the sign-in resolves, with the identity signed in, exactly for the credentials of an
  account, and is rejected, leaving the provider as it was (anonymous if it was), for any
  other credentials.
\<close>

theorem sign_in_outcomes:
  "Login_onSubmit (Inr ()) d s =
     (Inr (),
      s\<lparr>error := [], isLoading := False,
        navigated := navigated s @ [''/profile''],
        requests := requests s @ [SignIn (LoginFormData.email d) (LoginFormData.password d)]\<rparr>)
   \<and> Login_banners (snd (Login_onSubmit (Inr ()) d s)) = []
   \<and> Login_onSubmit (Inl e) d s =
       (Inr (),
        s\<lparr>error := ''Failed to sign in. Please check your credentials.'', isLoading := False,
          requests := requests s @ [SignIn (LoginFormData.email d) (LoginFormData.password d)]\<rparr>)
   \<and> length (Login_banners (snd (Login_onSubmit (Inl e) d s))) = 1
   \<and> (accounts p mail = Some (pw, u) \<longrightarrow> signIn p mail pw = (Inr (), p\<lparr>session := Some u\<rparr>))
   \<and> ((\<forall>v. accounts p mail \<noteq> Some (pw, v)) \<longrightarrow> signIn p mail pw = (Inl InvalidCredentials, p))"
  by (auto simp add: signIn_def Login_banners_def handler_defs prog_defs split: option.splits)

theorem sign_in_outcomes_witness:
  "accounts
     \<lparr>accounts = [''ann@example.com'' \<mapsto> (''secret1'',
        \<lparr>uid = ''u1'', user_email = Some ''ann@example.com'', displayName = None, photoURL = None\<rparr>)],
      session = None, dispatched = []\<rparr>
     ''ann@example.com''
   = Some (''secret1'',
       \<lparr>uid = ''u1'', user_email = Some ''ann@example.com'', displayName = None, photoURL = None\<rparr>)
   \<and> session (snd (signIn
       \<lparr>accounts = [''ann@example.com'' \<mapsto> (''secret1'',
        \<lparr>uid = ''u1'', user_email = Some ''ann@example.com'', displayName = None, photoURL = None\<rparr>)],
      session = None, dispatched = []\<rparr>
       ''ann@example.com'' ''secret1''))
     = Some \<lparr>uid = ''u1'', user_email = Some ''ann@example.com'', displayName = None, photoURL = None\<rparr>
   \<and> (\<forall>v. accounts
     \<lparr>accounts = [''ann@example.com'' \<mapsto> (''secret1'',
        \<lparr>uid = ''u1'', user_email = Some ''ann@example.com'', displayName = None, photoURL = None\<rparr>)],
      session = None, dispatched = []\<rparr>
     ''ann@example.com'' \<noteq> Some (''letmein'', v))
   \<and> fst (signIn
       \<lparr>accounts = [''ann@example.com'' \<mapsto> (''secret1'',
        \<lparr>uid = ''u1'', user_email = Some ''ann@example.com'', displayName = None, photoURL = None\<rparr>)],
      session = None, dispatched = []\<rparr>
       ''ann@example.com'' ''letmein'') = Inl InvalidCredentials"
  using
    sign_in_outcomes
      [where p = "\<lparr>accounts = [''ann@example.com'' \<mapsto> (''secret1'',
        \<lparr>uid = ''u1'', user_email = Some ''ann@example.com'', displayName = None, photoURL = None\<rparr>)],
      session = None, dispatched = []\<rparr>"
         and mail = "''ann@example.com''" and pw = "''secret1''"
         and u = "\<lparr>uid = ''u1'', user_email = Some ''ann@example.com'', displayName = None, photoURL = None\<rparr>"
         and e = InvalidCredentials
         and d = "\<lparr>LoginFormData.email = ''ann@example.com'', LoginFormData.password = ''secret1''\<rparr>"
         and s = "\<lparr>error = [], isLoading = False, errors = Map.empty, navigated = [], requests = []\<rparr>"]
    sign_in_outcomes
      [where p = "\<lparr>accounts = [''ann@example.com'' \<mapsto> (''secret1'',
        \<lparr>uid = ''u1'', user_email = Some ''ann@example.com'', displayName = None, photoURL = None\<rparr>)],
      session = None, dispatched = []\<rparr>"
         and mail = "''ann@example.com''" and pw = "''letmein''"
         and u = "\<lparr>uid = ''u1'', user_email = Some ''ann@example.com'', displayName = None, photoURL = None\<rparr>"
         and e = InvalidCredentials
         and d = "\<lparr>LoginFormData.email = ''ann@example.com'', LoginFormData.password = ''letmein''\<rparr>"
         and s = "\<lparr>error = [], isLoading = False, errors = Map.empty, navigated = [], requests = []\<rparr>"]
  by simp

text \<open>
  C9. Sign-up issues account creation and then the display-name update, with nothing to
  undo the first when the second fails: in every run in which account creation succeeds and
  the update is rejected, these two are the only requests issued, the screen shows the
  account-creation failure message, nothing is navigated to, and the handler ends normally
  with the loading flag cleared.
\<close>

theorem SignUp_update_failure_after_creation:
  "SignUp_onSubmit (Inr ()) (Inl e) data s =
     (Inr (),
      s\<lparr>error := ''Failed to create an account.'',
        isLoading := False,
        requests := requests s @
          [SignUp (SignUpFormData.email data) (SignUpFormData.password data),
           UpdateUserProfile (SignUpFormData.username data) None]\<rparr>)"
  by (simp add: SignUp_onSubmit_def prog_defs)

text \<open>
  C10. A failure of the fetch made when the profile screen mounts is swallowed: the
  handler ends normally, only the fetching flag changes (and the request is on record), so
  no error message is set; on the freshly mounted screen the error stays empty, the form is
  shown, and it holds its default values, the identity's display name as username and
  empty strings elsewhere.
\<close>

theorem fetch_failure_swallowed:
  "Profile_fetchUserData (Some u) (Some e) s =
     (Inr (), s\<lparr>fetchingUserData := False, requests := requests s @ [GetDoc (uid u)]\<rparr>)
   \<and> error (snd (Profile_fetchUserData (Some u) (Some e) (Profile_init (Some u) store))) = []
   \<and> Profile_form_shown (snd (Profile_fetchUserData (Some u) (Some e) (Profile_init (Some u) store)))
   \<and> form (snd (Profile_fetchUserData (Some u) (Some e) (Profile_init (Some u) store))) =
       \<lparr>username = or_else (displayName u) [], dob = [], mobileNumber = [], address = []\<rparr>"
  by (simp add: Profile_init_def Profile_form_shown_def handler_defs prog_defs)

end
